theory Spec2Isabelle
  imports Main
begin

section \<open>Data model (backend/app/models.py, backend/app/schemas.py)\<close>

text \<open>
  A \<open>datetime\<close> is the number of microseconds since the epoch, so that comparing two of
  them is comparing integers, and \<open>timedelta(minutes=m)\<close> is \<open>m\<close> minutes in that unit.
  Every call of \<open>datetime.utcnow()\<close> of a handler is the argument \<open>now\<close> of its model.
\<close>

type_synonym datetime = int

definition timedelta_minutes :: "int \<Rightarrow> int" where
  "timedelta_minutes m = m * 60000000"

datatype Role = admin | manager | staff | collaborator

datatype TaskStatus = st_pending | st_in_progress | st_done | st_blocked

record Department =
  d_id :: int
  d_name :: string
  d_description :: "string option"

record User =
  u_id :: int
  u_full_name :: string
  u_email :: string
  u_hashed_password :: string
  u_department_id :: "int option"
  u_role :: Role
  u_active :: bool

record Task =
  t_id :: int
  t_title :: string
  t_description :: "string option"
  t_status :: TaskStatus
  t_start_date :: datetime
  t_end_date :: datetime
  t_due_date :: "datetime option"
  t_completed_at :: "datetime option"
  t_created_at :: datetime
  t_updated_at :: datetime
  t_department_id :: int
  t_assigned_to_id :: int
  t_created_by_id :: int

record Event =
  e_id :: int
  e_title :: string
  e_description :: "string option"
  e_scheduled_at :: datetime
  e_department_id :: "int option"

record AccessGrant =
  g_id :: int
  g_user_id :: int
  g_resource_type :: string
  g_resource_id :: string
  g_permission :: string
  g_department_id :: "int option"
  g_created_at :: datetime

record RefreshToken =
  rt_id :: int
  rt_user_id :: int
  rt_token_hash :: string
  rt_expires_at :: datetime
  rt_revoked :: bool
  rt_created_at :: datetime

text \<open>The request and response bodies of the handlers below.\<close>

record TaskCreate =
  tc_title :: string
  tc_description :: "string option"
  tc_status :: TaskStatus
  tc_start_date :: datetime
  tc_end_date :: datetime
  tc_due_date :: "datetime option"
  tc_department_id :: int
  tc_assigned_to_id :: int

record EventUpdate =
  eu_title :: "string option"
  eu_description :: "string option"
  eu_scheduled_at :: "datetime option"
  eu_department_id :: "int option"

text \<open>
  The part of \<open>Settings\<close> (backend/app/config.py) that the handlers read.
\<close>

record Settings =
  secret_key :: string
  algorithm :: string
  access_token_expire_minutes :: int
  refresh_token_expire_minutes :: int

text \<open>
  The database session: one list of rows per table, in insertion order.
  \<open>db.get(Model, k)\<close> is the first row whose primary key is \<open>k\<close>, and
  \<open>query.filter(p).first()\<close> is the first row that satisfies \<open>p\<close>.
\<close>

record Session =
  users :: "User list"
  departments :: "Department list"
  tasks :: "Task list"
  events :: "Event list"
  access_grants :: "AccessGrant list"
  refresh_tokens :: "RefreshToken list"

definition db_get_user :: "Session \<Rightarrow> int \<Rightarrow> User option" where
  "db_get_user db k = find (\<lambda>u. u_id u = k) (users db)"


definition db_get_task :: "Session \<Rightarrow> int \<Rightarrow> Task option" where
  "db_get_task db k = find (\<lambda>t. t_id t = k) (tasks db)"

definition db_get_event :: "Session \<Rightarrow> int \<Rightarrow> Event option" where
  "db_get_event db k = find (\<lambda>e. e_id e = k) (events db)"

text \<open>The integer primary key that the database gives to a new row.\<close>

definition next_id :: "int list \<Rightarrow> int" where
  "next_id ks = foldr max ks 0 + 1"

text \<open>
  What a handler raises: an \<open>HTTPException\<close> with its status code and detail, or the
  \<open>IntegrityError\<close> of a commit that breaks a unique index.
\<close>

datatype error = HTTPException int string | IntegrityError

section \<open>Signed access tokens (jose.jwt as used by backend/app/auth.py)\<close>

text \<open>
  The claims of an access token. \<open>sub\<close> carries the user's id: it is written as
  \<open>str(user.id)\<close> at issue and handed to \<open>db.get\<close> as the primary key at lookup; the
  model keeps the id itself. \<open>exp\<close> and \<open>iat\<close> are whole seconds: the library turns a
  \<open>datetime\<close> claim into \<open>timegm(d.utctimetuple())\<close>.
\<close>

record Claims =
  c_sub :: "int option"
  c_exp :: "int option"
  c_iat :: "int option"
  c_jti :: "string option"

definition timegm :: "datetime \<Rightarrow> int" where
  "timegm d = d div 1000000"

text \<open>
  A token string is either not a JWS at all, or a JWS that names an algorithm, carries
  claims and was signed with some key; its signature verifies under exactly that key.
\<close>

datatype Token = Malformed string | JWS string string Claims

definition jwt_encode :: "Claims \<Rightarrow> string \<Rightarrow> string \<Rightarrow> Token" where
  "jwt_encode claims key alg = JWS alg key claims"

text \<open>
  \<open>jwt.decode(token, key, algorithms)\<close> of the python-jose library, with \<open>None\<close> for
  every \<open>JWTError\<close>: it verifies the signature first, then the claims, and raises
  \<open>ExpiredSignatureError\<close> when \<open>exp < now\<close> with \<open>now\<close> in whole seconds
  (\<open>timegm(datetime.utcnow().utctimetuple())\<close>, no leeway).
\<close>

definition jwt_decode :: "Token \<Rightarrow> string \<Rightarrow> string list \<Rightarrow> datetime \<Rightarrow> Claims option" where
  "jwt_decode token key algorithms now =
     (case token of
        Malformed _ \<Rightarrow> None
      | JWS alg signed_with claims \<Rightarrow>
          if alg \<notin> set algorithms then None
          else if signed_with \<noteq> key then None
          else (case c_exp claims of
                  None \<Rightarrow> Some claims
                | Some e \<Rightarrow> if e < timegm now then None else Some claims))"

section \<open>backend/app/auth.py\<close>

text \<open>
  \<open>verify_password\<close> is passlib's bcrypt check; the handlers take it as the parameter
  \<open>verify_password\<close>. The random \<open>jti\<close> of \<open>secrets.token_hex(8)\<close> is the parameter \<open>jti\<close>.
\<close>

definition create_access_token ::
  "Settings \<Rightarrow> int \<Rightarrow> int option \<Rightarrow> datetime \<Rightarrow> string \<Rightarrow> Token" where
  "create_access_token st sub expires_delta now jti =
     (let delta = (case expires_delta of
                     None \<Rightarrow> timedelta_minutes (access_token_expire_minutes st)
                   | Some d \<Rightarrow> if d = 0 then timedelta_minutes (access_token_expire_minutes st)
                               else d);
          expire = now + delta
      in jwt_encode \<lparr>c_sub = Some sub, c_exp = Some (timegm expire),
                      c_iat = Some (timegm now), c_jti = Some jti\<rparr>
           (secret_key st) (algorithm st))"

definition get_user :: "Session \<Rightarrow> string \<Rightarrow> User option" where
  "get_user db email = find (\<lambda>u. u_email u = email) (users db)"

definition authenticate_user ::
  "(string \<Rightarrow> string \<Rightarrow> bool) \<Rightarrow> Session \<Rightarrow> string \<Rightarrow> string \<Rightarrow> User option" where
  "authenticate_user verify_password db email password =
     (case get_user db email of
        None \<Rightarrow> None
      | Some user \<Rightarrow>
          if \<not> verify_password password (u_hashed_password user) then None else Some user)"

definition credentials_exception :: error where
  "credentials_exception = HTTPException 401 ''Could not validate credentials''"

definition get_current_user :: "Settings \<Rightarrow> Token \<Rightarrow> datetime \<Rightarrow> Session \<Rightarrow> error + User" where
  "get_current_user st token now db =
     (case jwt_decode token (secret_key st) [algorithm st] now of
        None \<Rightarrow> Inl credentials_exception
      | Some payload \<Rightarrow>
          (case c_sub payload of
             None \<Rightarrow> Inl credentials_exception
           | Some user_id \<Rightarrow>
               (case db_get_user db user_id of
                  None \<Rightarrow> Inl credentials_exception
                | Some user \<Rightarrow>
                    if \<not> u_active user then Inl credentials_exception else Inr user)))"

section \<open>Refresh tokens and the auth endpoints (backend/app/main.py)\<close>

text \<open>
  \<open>hashlib.sha256(...).hexdigest()\<close> is the parameter \<open>sha256\<close>; the random secret of
  \<open>secrets.token_urlsafe(48)\<close> is the parameter \<open>raw\<close>.
\<close>

record TokenResponse =
  access_token :: Token
  token_type :: string
  refresh_secret :: "string option"

definition hash_refresh_token :: "Settings \<Rightarrow> (string \<Rightarrow> string) \<Rightarrow> string \<Rightarrow> string" where
  "hash_refresh_token st sha256 token = sha256 (token @ secret_key st)"

text \<open>
  \<open>_issue_refresh_token\<close>: the insert is refused by the unique index on \<open>token_hash\<close>
  (models.py and the migration) when the hash is already in the table.
\<close>

definition issue_refresh_token ::
  "Settings \<Rightarrow> (string \<Rightarrow> string) \<Rightarrow> Session \<Rightarrow> int \<Rightarrow> string \<Rightarrow> datetime
     \<Rightarrow> error + (string \<times> Session)" where
  "issue_refresh_token st sha256 db user_id raw now =
     (let token_hash = hash_refresh_token st sha256 raw;
          expires = now + timedelta_minutes (refresh_token_expire_minutes st);
          record = \<lparr>rt_id = next_id (map rt_id (refresh_tokens db)), rt_user_id = user_id,
                    rt_token_hash = token_hash, rt_expires_at = expires,
                    rt_revoked = False, rt_created_at = now\<rparr>
      in if token_hash \<in> set (map rt_token_hash (refresh_tokens db)) then Inl IntegrityError
         else Inr (raw, db\<lparr>refresh_tokens := refresh_tokens db @ [record]\<rparr>))"

definition revoke_refresh_token :: "Session \<Rightarrow> string \<Rightarrow> Session" where
  "revoke_refresh_token db token_hash =
     db\<lparr>refresh_tokens :=
          map (\<lambda>r. if rt_token_hash r = token_hash then r\<lparr>rt_revoked := True\<rparr> else r)
            (refresh_tokens db)\<rparr>"

definition login_for_access_token ::
  "Settings \<Rightarrow> (string \<Rightarrow> string \<Rightarrow> bool) \<Rightarrow> (string \<Rightarrow> string) \<Rightarrow> string \<Rightarrow> string
     \<Rightarrow> datetime \<Rightarrow> string \<Rightarrow> string \<Rightarrow> Session \<Rightarrow> (error + TokenResponse) \<times> Session" where
  "login_for_access_token st verify_password sha256 username password now raw jti db =
     (case authenticate_user verify_password db username password of
        None \<Rightarrow> (Inl (HTTPException 401 ''Incorrect email or password''), db)
      | Some user \<Rightarrow>
          (let token = create_access_token st (u_id user) None now jti
           in case issue_refresh_token st sha256 db (u_id user) raw now of
                Inl e \<Rightarrow> (Inl e, db)
              | Inr (new_refresh, db') \<Rightarrow>
                  (Inr \<lparr>access_token = token, token_type = ''bearer'',
                        refresh_secret = Some new_refresh\<rparr>, db')))"

text \<open>
  \<open>refresh_token\<close>: \<open>record.revoked = True; db.commit()\<close> updates the row with the
  record's primary key and is committed before the new row is inserted.
\<close>

definition refresh_token ::
  "Settings \<Rightarrow> (string \<Rightarrow> string) \<Rightarrow> string \<Rightarrow> datetime \<Rightarrow> string \<Rightarrow> string \<Rightarrow> Session
     \<Rightarrow> (error + TokenResponse) \<times> Session" where
  "refresh_token st sha256 payload now raw jti db =
     (let token_hash = hash_refresh_token st sha256 payload
      in case find (\<lambda>r. rt_token_hash r = token_hash \<and> \<not> rt_revoked r \<and> rt_expires_at r > now)
                (refresh_tokens db) of
           None \<Rightarrow> (Inl (HTTPException 401 ''Invalid refresh token''), db)
         | Some record \<Rightarrow>
             (case db_get_user db (rt_user_id record) of
                None \<Rightarrow> (Inl (HTTPException 401 ''User inactive''), db)
              | Some user \<Rightarrow>
                  if \<not> u_active user then (Inl (HTTPException 401 ''User inactive''), db)
                  else
                    (let db1 = db\<lparr>refresh_tokens :=
                                    map (\<lambda>r. if rt_id r = rt_id record
                                              then r\<lparr>rt_revoked := True\<rparr> else r)
                                      (refresh_tokens db)\<rparr>
                     in case issue_refresh_token st sha256 db1 (u_id user) raw now of
                          Inl e \<Rightarrow> (Inl e, db1)
                        | Inr (new_refresh, db2) \<Rightarrow>
                            (Inr \<lparr>access_token = create_access_token st (u_id user) None now jti,
                                  token_type = ''bearer'',
                                  refresh_secret = Some new_refresh\<rparr>, db2))))"

definition logout ::
  "Settings \<Rightarrow> (string \<Rightarrow> string) \<Rightarrow> string \<Rightarrow> Session \<Rightarrow> (error + unit) \<times> Session" where
  "logout st sha256 payload db =
     (let token_hash = hash_refresh_token st sha256 payload
      in (Inr (), revoke_refresh_token db token_hash))"

section \<open>Task and event handlers (backend/app/main.py)\<close>

text \<open>
  The handlers end with \<open>log_activity\<close>, which appends a row to the activity log; no
  property below reads that table, and the model leaves it out.
\<close>

text \<open>\<open>_task_guard\<close>: returning normally is \<open>Inr ()\<close>.\<close>

definition task_guard :: "Task \<Rightarrow> User \<Rightarrow> error + unit" where
  "task_guard task user =
     (if u_role user = admin then Inr ()
      else if u_role user = manager \<and> u_department_id user \<noteq> Some (t_department_id task)
        then Inl (HTTPException 403 ''Not allowed outside department'')
      else if u_role user = staff \<and> u_id user \<notin> set [t_assigned_to_id task]
        then Inl (HTTPException 403 ''Task not assigned to you'')
      else Inr ())"

definition get_task :: "int \<Rightarrow> Session \<Rightarrow> User \<Rightarrow> error + Task" where
  "get_task task_id db current_user =
     (case db_get_task db task_id of
        None \<Rightarrow> Inl (HTTPException 404 ''Task not found'')
      | Some db_task \<Rightarrow>
          (case task_guard db_task current_user of
             Inl e \<Rightarrow> Inl e
           | Inr _ \<Rightarrow> Inr db_task))"



text \<open>
  \<open>event_update.model_dump(exclude_none=True).items()\<close>: the fields that are set, in
  the order of the schema.
\<close>

datatype EventField =
  F_title string | F_description string | F_scheduled_at datetime | F_department_id int

definition event_update_items :: "EventUpdate \<Rightarrow> EventField list" where
  "event_update_items u =
     (case eu_title u of None \<Rightarrow> [] | Some v \<Rightarrow> [F_title v])
     @ (case eu_description u of None \<Rightarrow> [] | Some v \<Rightarrow> [F_description v])
     @ (case eu_scheduled_at u of None \<Rightarrow> [] | Some v \<Rightarrow> [F_scheduled_at v])
     @ (case eu_department_id u of None \<Rightarrow> [] | Some v \<Rightarrow> [F_department_id v])"

fun setattr_event :: "Event \<Rightarrow> EventField \<Rightarrow> Event" where
  "setattr_event ev (F_title v) = ev\<lparr>e_title := v\<rparr>"
| "setattr_event ev (F_description v) = ev\<lparr>e_description := Some v\<rparr>"
| "setattr_event ev (F_scheduled_at v) = ev\<lparr>e_scheduled_at := v\<rparr>"
| "setattr_event ev (F_department_id v) = ev\<lparr>e_department_id := Some v\<rparr>"

text \<open>The loop over the fields of \<open>update_event\<close>.\<close>

fun update_event_fields :: "User \<Rightarrow> Event \<Rightarrow> EventField list \<Rightarrow> error + Event" where
  "update_event_fields current_user ev [] = Inr ev"
| "update_event_fields current_user ev (f # fs) =
     (if (case f of F_department_id v \<Rightarrow>
                 u_role current_user = manager \<and> Some v \<noteq> u_department_id current_user
          | _ \<Rightarrow> False)
      then Inl (HTTPException 403 ''Cannot move events outside your department'')
      else update_event_fields current_user (setattr_event ev f) fs)"

definition update_event ::
  "int \<Rightarrow> EventUpdate \<Rightarrow> Session \<Rightarrow> User \<Rightarrow> (error + Event) \<times> Session" where
  "update_event event_id event_update db current_user =
     (case db_get_event db event_id of
        None \<Rightarrow> (Inl (HTTPException 404 ''Event not found''), db)
      | Some db_event \<Rightarrow>
          if u_role current_user = manager
             \<and> (e_department_id db_event \<noteq> u_department_id current_user
                  \<or> e_department_id db_event = None)
          then (Inl (HTTPException 403
                       ''Managers cannot modify shared or other department events''), db)
          else if u_role current_user \<noteq> manager \<and> u_role current_user \<noteq> admin
          then (Inl (HTTPException 403 ''Not allowed to update events''), db)
          else
            (case update_event_fields current_user db_event (event_update_items event_update) of
               Inl e \<Rightarrow> (Inl e, db)
             | Inr ev \<Rightarrow>
                 (Inr ev,
                  db\<lparr>events := map (\<lambda>r. if e_id r = e_id db_event then ev else r)
                                   (events db)\<rparr>)))"

section \<open>Concrete instances\<close>

text \<open>
  The instances at which the theorems below are evaluated. \<open>demo_sha256\<close> and
  \<open>demo_verify\<close> stand in for SHA-256 and bcrypt there: the handlers only compare their
  results.
\<close>

definition demo_settings :: Settings where
  "demo_settings = \<lparr>secret_key = ''test-secret'', algorithm = ''HS256'',
                     access_token_expire_minutes = 1440, refresh_token_expire_minutes = 10080\<rparr>"

definition demo_sha256 :: "string \<Rightarrow> string" where
  "demo_sha256 s = CHR ''#'' # s"

definition demo_verify :: "string \<Rightarrow> string \<Rightarrow> bool" where
  "demo_verify plain hashed = (hashed = CHR ''$'' # plain)"

definition demo_user :: User where
  "demo_user = \<lparr>u_id = 1, u_full_name = ''System Admin'', u_email = ''admin@example.com'',
                 u_hashed_password = ''$changeme'', u_department_id = Some 1,
                 u_role = admin, u_active = True\<rparr>"

definition demo_db :: Session where
  "demo_db = \<lparr>users = [demo_user],
               departments = [\<lparr>d_id = 1, d_name = ''Administration'', d_description = None\<rparr>],
               tasks = [], events = [], access_grants = [], refresh_tokens = []\<rparr>"

definition demo_record :: RefreshToken where
  "demo_record = \<lparr>rt_id = 1, rt_user_id = 1, rt_token_hash = ''#Ttest-secret'',
                   rt_expires_at = 604800000000, rt_revoked = False, rt_created_at = 0\<rparr>"

definition demo_db_T :: Session where
  "demo_db_T = demo_db\<lparr>refresh_tokens := [demo_record]\<rparr>"

definition demo_db_T_inactive :: Session where
  "demo_db_T_inactive = demo_db_T\<lparr>users := [demo_user\<lparr>u_active := False\<rparr>]\<rparr>"

definition demo_manager :: User where
  "demo_manager = \<lparr>u_id = 2, u_full_name = ''Jacob Finance'',
                    u_email = ''jacob.finance@ngo.example'',
                    u_hashed_password = ''$Welcome123!'', u_department_id = Some 1,
                    u_role = manager, u_active = True\<rparr>"

definition demo_staff :: User where
  "demo_staff = \<lparr>u_id = 3, u_full_name = ''Peter Field Officer'',
                  u_email = ''peter.field@ngo.example'',
                  u_hashed_password = ''$Welcome123!'', u_department_id = Some 1,
                  u_role = staff, u_active = True\<rparr>"

definition demo_task :: Task where
  "demo_task = \<lparr>t_id = 7, t_title = ''Quarterly report'', t_description = None,
                 t_status = st_pending, t_start_date = 0, t_end_date = 10, t_due_date = None,
                 t_completed_at = None, t_created_at = 0, t_updated_at = 0,
                 t_department_id = 2, t_assigned_to_id = 3, t_created_by_id = 1\<rparr>"

definition demo_own_task :: Task where
  "demo_own_task = demo_task\<lparr>t_id := 8, t_department_id := 1\<rparr>"

definition demo_peer_task :: Task where
  "demo_peer_task = demo_task\<lparr>t_id := 9, t_department_id := 1, t_assigned_to_id := 2\<rparr>"

definition demo_event :: Event where
  "demo_event = \<lparr>e_id = 4, e_title = ''Town hall'', e_description = None,
                  e_scheduled_at = 50, e_department_id = Some 1\<rparr>"

definition demo_grants :: "AccessGrant list" where
  "demo_grants = [\<lparr>g_id = 1, g_user_id = 2, g_resource_type = ''tasks'', g_resource_id = ''all'',
                    g_permission = ''edit'', g_department_id = None, g_created_at = 0\<rparr>,
                  \<lparr>g_id = 2, g_user_id = 2, g_resource_type = ''tasks'', g_resource_id = ''7'',
                    g_permission = ''view'', g_department_id = Some 2, g_created_at = 0\<rparr>]"

definition demo_org :: Session where
  "demo_org = \<lparr>users = [demo_user, demo_manager, demo_staff],
                departments = [\<lparr>d_id = 1, d_name = ''Finance'', d_description = None\<rparr>,
                               \<lparr>d_id = 2, d_name = ''HR'', d_description = None\<rparr>],
                tasks = [demo_task, demo_own_task, demo_peer_task], events = [demo_event],
                access_grants = demo_grants, refresh_tokens = []\<rparr>"

definition demo_task_in :: TaskCreate where
  "demo_task_in = \<lparr>tc_title = ''Field visit'', tc_description = None, tc_status = st_pending,
                    tc_start_date = 0, tc_end_date = 10, tc_due_date = None,
                    tc_department_id = 1, tc_assigned_to_id = 3\<rparr>"

definition demo_relocate :: EventUpdate where
  "demo_relocate = \<lparr>eu_title = None, eu_description = None, eu_scheduled_at = None,
                     eu_department_id = Some 2\<rparr>"

definition demo_retitle :: EventUpdate where
  "demo_retitle = \<lparr>eu_title = Some ''All hands'', eu_description = None,
                    eu_scheduled_at = None, eu_department_id = None\<rparr>"

definition demo_claims :: Claims where
  "demo_claims = \<lparr>c_sub = Some 1, c_exp = Some 100, c_iat = Some 0, c_jti = Some ''j''\<rparr>"

lemmas demo_defs = demo_settings_def demo_sha256_def demo_verify_def demo_user_def demo_db_def
  demo_record_def demo_db_T_def demo_db_T_inactive_def demo_claims_def

lemmas org_defs = demo_manager_def demo_staff_def demo_task_def demo_own_task_def
  demo_peer_task_def demo_event_def
  demo_grants_def demo_org_def demo_task_in_def demo_user_def demo_relocate_def demo_retitle_def

section \<open>The refresh ledger\<close>

text \<open>
  The unique index on \<open>token_hash\<close> makes the stored hashes pairwise distinct. The empty
  table has the property, and \<open>login_for_access_token\<close>, \<open>refresh_token\<close> and \<open>logout\<close>
  keep it.
\<close>

lemma find_valid_unique:
  assumes "distinct (map rt_token_hash rs)"
    and "r \<in> set rs" and "rt_token_hash r = h"
    and "r' \<in> set rs" and "rt_token_hash r' = h"
  shows "r' = r"
  using assms by (metis distinct_map inj_on_eq_iff)

lemma revoke_by_id_hashes:
  "map rt_token_hash (map (\<lambda>r. if rt_id r = k then r\<lparr>rt_revoked := True\<rparr> else r) rs)
     = map rt_token_hash rs"
  by (induction rs) auto

lemma revoke_by_hash_hashes:
  "map rt_token_hash (map (\<lambda>r. if rt_token_hash r = h then r\<lparr>rt_revoked := True\<rparr> else r) rs)
     = map rt_token_hash rs"
  by (induction rs) auto

lemma revoke_by_id_hash_image:
  "rt_token_hash ` set (map (\<lambda>r. if rt_id r = k then r\<lparr>rt_revoked := True\<rparr> else r) rs)
     = rt_token_hash ` set rs"
  by (induction rs) auto

lemma issue_refresh_token_fresh:
  assumes "hash_refresh_token st sha256 raw \<notin> rt_token_hash ` set (refresh_tokens db)"
  shows "issue_refresh_token st sha256 db uid raw now =
           Inr (raw, db\<lparr>refresh_tokens := refresh_tokens db @
                  [\<lparr>rt_id = next_id (map rt_id (refresh_tokens db)), rt_user_id = uid,
                    rt_token_hash = hash_refresh_token st sha256 raw,
                    rt_expires_at = now + timedelta_minutes (refresh_token_expire_minutes st),
                    rt_revoked = False, rt_created_at = now\<rparr>]\<rparr>)"
  using assms by (simp add: issue_refresh_token_def Let_def)

lemma issue_refresh_token_distinct:
  assumes "distinct (map rt_token_hash (refresh_tokens db))"
    and "issue_refresh_token st sha256 db uid raw now = Inr (s, db')"
  shows "distinct (map rt_token_hash (refresh_tokens db'))"
  using assms by (auto simp: issue_refresh_token_def Let_def split: if_splits)

lemma revoke_refresh_token_distinct:
  assumes "distinct (map rt_token_hash (refresh_tokens db))"
  shows "distinct (map rt_token_hash (refresh_tokens (revoke_refresh_token db h)))"
  using assms by (simp add: revoke_refresh_token_def revoke_by_hash_hashes del: map_map)

lemma find_revoked_none:
  "find (\<lambda>r. rt_token_hash r = h \<and> \<not> rt_revoked r \<and> now < rt_expires_at r)
     (map (\<lambda>r. if rt_token_hash r = h then r\<lparr>rt_revoked := True\<rparr> else r) rs) = None"
  by (induction rs) auto

lemma refresh_token_success:
  assumes found: "find (\<lambda>r. rt_token_hash r = hash_refresh_token st sha256 T \<and> \<not> rt_revoked r
                          \<and> now < rt_expires_at r) (refresh_tokens db) = Some record"
    and user: "db_get_user db (rt_user_id record) = Some user" "u_active user"
    and fresh: "hash_refresh_token st sha256 raw \<notin> rt_token_hash ` set (refresh_tokens db)"
  shows "refresh_token st sha256 T now raw jti db =
           (Inr \<lparr>access_token = create_access_token st (u_id user) None now jti,
                 token_type = ''bearer'', refresh_secret = Some raw\<rparr>,
            db\<lparr>refresh_tokens :=
                 map (\<lambda>r. if rt_id r = rt_id record then r\<lparr>rt_revoked := True\<rparr> else r)
                   (refresh_tokens db)
                 @ [\<lparr>rt_id = next_id (map rt_id
                              (map (\<lambda>r. if rt_id r = rt_id record
                                         then r\<lparr>rt_revoked := True\<rparr> else r)
                                 (refresh_tokens db))),
                     rt_user_id = u_id user,
                     rt_token_hash = hash_refresh_token st sha256 raw,
                     rt_expires_at = now + timedelta_minutes (refresh_token_expire_minutes st),
                     rt_revoked = False, rt_created_at = now\<rparr>]\<rparr>)"
proof -
  let ?db1 = "db\<lparr>refresh_tokens :=
                 map (\<lambda>r. if rt_id r = rt_id record then r\<lparr>rt_revoked := True\<rparr> else r)
                   (refresh_tokens db)\<rparr>"
  have "rt_token_hash ` set (refresh_tokens ?db1) = rt_token_hash ` set (refresh_tokens db)"
    using revoke_by_id_hash_image[of "rt_id record" "refresh_tokens db"] by simp
  with fresh have "hash_refresh_token st sha256 raw \<notin> rt_token_hash ` set (refresh_tokens ?db1)"
    by simp
  from issue_refresh_token_fresh[OF this, of "u_id user" now] found user
  show ?thesis
    by (simp add: refresh_token_def Let_def)
qed

lemma refresh_token_invalid:
  assumes "\<forall>r \<in> set (refresh_tokens db).
             rt_token_hash r = hash_refresh_token st sha256 T
               \<longrightarrow> rt_revoked r \<or> rt_expires_at r \<le> now"
  shows "refresh_token st sha256 T now raw jti db =
           (Inl (HTTPException 401 ''Invalid refresh token''), db)"
proof -
  have "find (\<lambda>r. rt_token_hash r = hash_refresh_token st sha256 T \<and> \<not> rt_revoked r
                   \<and> now < rt_expires_at r) (refresh_tokens db) = None"
    using assms by (auto simp: find_None_iff)
  then show ?thesis by (simp add: refresh_token_def Let_def)
qed

lemma login_keeps_distinct:
  assumes "distinct (map rt_token_hash (refresh_tokens db))"
  shows "distinct (map rt_token_hash (refresh_tokens
           (snd (login_for_access_token st verify_password sha256 username password now raw jti db))))"
  using assms issue_refresh_token_distinct[OF assms]
  by (auto simp: login_for_access_token_def Let_def split: option.splits sum.splits)

lemma refresh_token_keeps_distinct:
  assumes "distinct (map rt_token_hash (refresh_tokens db))"
  shows "distinct (map rt_token_hash (refresh_tokens
           (snd (refresh_token st sha256 T now raw jti db))))"
proof -
  have d1: "distinct (map rt_token_hash (refresh_tokens
              (db\<lparr>refresh_tokens :=
                   map (\<lambda>r. if rt_id r = k then r\<lparr>rt_revoked := True\<rparr> else r)
                     (refresh_tokens db)\<rparr>)))" for k
    using assms by (simp add: revoke_by_id_hashes del: map_map)
  show ?thesis
    using assms d1 issue_refresh_token_distinct[OF d1]
    by (auto simp: refresh_token_def Let_def simp del: map_map split: option.splits sum.splits)
qed

lemma logout_keeps_distinct:
  assumes "distinct (map rt_token_hash (refresh_tokens db))"
  shows "distinct (map rt_token_hash (refresh_tokens (snd (logout st sha256 T db))))"
  using revoke_refresh_token_distinct[OF assms] by (simp add: logout_def Let_def)

text \<open>Logging in on \<open>demo_db\<close> issues the secret \<open>T\<close> and leaves \<open>demo_db_T\<close>.\<close>

lemma demo_login_issues_T:
  "snd (login_for_access_token demo_settings demo_verify demo_sha256
          ''admin@example.com'' ''changeme'' 0 ''T'' ''j'' demo_db) = demo_db_T"
  by (simp add: demo_defs login_for_access_token_def authenticate_user_def get_user_def
        issue_refresh_token_def hash_refresh_token_def next_id_def timedelta_minutes_def Let_def)

section \<open>Claims about the session lifecycle\<close>

text \<open>
  C1, as stated: one \<open>refresh(T)\<close> on a state where the record of \<open>T\<close> is unrevoked and
  unexpired succeeds. It does not when the owner of the record has been deactivated:
  \<open>T\<close> is the secret that logging in on \<open>demo_db\<close> issued, the owner is inactive in
  \<open>demo_db_T_inactive\<close>, and the handler answers 401 \<open>User inactive\<close>.
\<close>

theorem refresh_inactive_owner_counterexample:
  "find (\<lambda>r. rt_token_hash r = hash_refresh_token demo_settings demo_sha256 ''T''
              \<and> \<not> rt_revoked r \<and> 5 < rt_expires_at r) (refresh_tokens demo_db_T_inactive)
     = Some demo_record
   \<and> refresh_token demo_settings demo_sha256 ''T'' 5 ''N'' ''j2'' demo_db_T_inactive
     = (Inl (HTTPException 401 ''User inactive''), demo_db_T_inactive)"
  by (simp add: demo_defs refresh_token_def hash_refresh_token_def db_get_user_def Let_def)

text \<open>
  C1, amended: when the stored hashes are pairwise distinct (the unique index), the
  record of \<open>T\<close> is unrevoked and unexpired at \<open>now\<close>, its owner exists and is active, and
  the hash of the freshly drawn secret is not in the table yet, \<open>refresh(T)\<close> succeeds and
  returns a new access token and the new secret; on the resulting state every further
  \<open>refresh(T)\<close>, at any time and with any fresh randomness, fails with 401
  \<open>Invalid refresh token\<close> and changes nothing.
\<close>

theorem refresh_rotation_single_use:
  assumes uniq: "distinct (map rt_token_hash (refresh_tokens db))"
    and found: "find (\<lambda>r. rt_token_hash r = hash_refresh_token st sha256 T \<and> \<not> rt_revoked r
                          \<and> now < rt_expires_at r) (refresh_tokens db) = Some record"
    and user: "db_get_user db (rt_user_id record) = Some user" "u_active user"
    and fresh: "hash_refresh_token st sha256 raw \<notin> rt_token_hash ` set (refresh_tokens db)"
  shows "\<exists>tok db'. refresh_token st sha256 T now raw jti db = (Inr tok, db')
           \<and> refresh_secret tok = Some raw
           \<and> access_token tok = create_access_token st (u_id user) None now jti
           \<and> (\<forall>now' raw' jti'. refresh_token st sha256 T now' raw' jti' db'
                  = (Inl (HTTPException 401 ''Invalid refresh token''), db'))"
proof -
  let ?h = "hash_refresh_token st sha256 T"
  let ?rs1 = "map (\<lambda>r. if rt_id r = rt_id record then r\<lparr>rt_revoked := True\<rparr> else r)
                (refresh_tokens db)"
  let ?new = "\<lparr>rt_id = next_id (map rt_id ?rs1), rt_user_id = u_id user,
               rt_token_hash = hash_refresh_token st sha256 raw,
               rt_expires_at = now + timedelta_minutes (refresh_token_expire_minutes st),
               rt_revoked = False, rt_created_at = now\<rparr>"
  let ?db' = "db\<lparr>refresh_tokens := ?rs1 @ [?new]\<rparr>"
  from found have rec_in: "record \<in> set (refresh_tokens db)"
    and rec_h: "rt_token_hash record = ?h"
    by (auto simp: find_Some_iff in_set_conv_nth)
  have step: "refresh_token st sha256 T now raw jti db =
      (Inr \<lparr>access_token = create_access_token st (u_id user) None now jti,
            token_type = ''bearer'', refresh_secret = Some raw\<rparr>, ?db')"
    using refresh_token_success[OF found user fresh] by simp
  have new_h: "hash_refresh_token st sha256 raw \<noteq> ?h"
    using fresh rec_in rec_h by force
  have "\<forall>r \<in> set (refresh_tokens ?db').
          rt_token_hash r = ?h \<longrightarrow> rt_revoked r \<or> rt_expires_at r \<le> now'" for now'
  proof (intro ballI impI)
    fix r assume r: "r \<in> set (refresh_tokens ?db')" and h: "rt_token_hash r = ?h"
    from r h new_h have "r \<in> set ?rs1" by auto
    then obtain r0 where r0: "r0 \<in> set (refresh_tokens db)"
      and r_def: "r = (if rt_id r0 = rt_id record then r0\<lparr>rt_revoked := True\<rparr> else r0)"
      by auto
    from r_def h have "rt_token_hash r0 = ?h" by (auto split: if_splits)
    with find_valid_unique[OF uniq rec_in rec_h r0] have "r0 = record" by simp
    with r_def show "rt_revoked r \<or> rt_expires_at r \<le> now'" by simp
  qed
  then have "\<forall>now' raw' jti'. refresh_token st sha256 T now' raw' jti' ?db'
                  = (Inl (HTTPException 401 ''Invalid refresh token''), ?db')"
    using refresh_token_invalid by blast
  with step show ?thesis by simp
qed

theorem refresh_rotation_single_use_witness:
  "\<exists>tok db'. refresh_token demo_settings demo_sha256 ''T'' 5 ''N'' ''j2'' demo_db_T = (Inr tok, db')
      \<and> refresh_secret tok = Some ''N''
      \<and> access_token tok = create_access_token demo_settings 1 None 5 ''j2''
      \<and> (\<forall>now' raw' jti'. refresh_token demo_settings demo_sha256 ''T'' now' raw' jti' db'
             = (Inl (HTTPException 401 ''Invalid refresh token''), db'))"
  using refresh_rotation_single_use
          [of demo_db_T demo_settings demo_sha256 "''T''" 5 demo_record demo_user "''N''" "''j2''"]
  by (simp add: demo_defs hash_refresh_token_def db_get_user_def)

text \<open>
  C2, at the failing input: the user of \<open>demo_db\<close> is deactivated and logs in with the
  right password. \<open>login_for_access_token\<close> answers with an access token and a refresh
  secret, where the claim says \<open>InvalidCredentials\<close>: \<open>authenticate_user\<close> never reads
  \<open>active\<close>, which \<open>get_current_user\<close> and \<open>refresh_token\<close> both check.
\<close>

theorem login_inactive_user_succeeds:
  "fst (login_for_access_token demo_settings demo_verify demo_sha256
          ''admin@example.com'' ''changeme'' 0 ''T'' ''j''
          (demo_db\<lparr>users := [demo_user\<lparr>u_active := False\<rparr>]\<rparr>))
     = Inr \<lparr>access_token = create_access_token demo_settings 1 None 0 ''j'',
            token_type = ''bearer'', refresh_secret = Some ''T''\<rparr>"
  by (simp add: demo_defs login_for_access_token_def authenticate_user_def get_user_def
        issue_refresh_token_def hash_refresh_token_def next_id_def timedelta_minutes_def Let_def)

text \<open>
  C4: for an access token signed with the process key under the configured algorithm
  whose \<open>exp\<close> is later than now, \<open>get_current_user\<close> raises the credentials exception
  whenever the user named by \<open>sub\<close> is absent from the users table or has
  \<open>active = False\<close>. The lookup happens at every call, so a user deactivated after the
  token was issued is rejected at the next one.
\<close>

theorem get_current_user_rejects_missing_or_inactive:
  assumes "token = JWS (algorithm st) (secret_key st) claims"
    and "c_exp claims = Some e" and "timegm now < e"
    and "c_sub claims = Some uid"
    and "db_get_user db uid = None \<or> (\<exists>u. db_get_user db uid = Some u \<and> \<not> u_active u)"
  shows "get_current_user st token now db = Inl credentials_exception"
  using assms by (auto simp: get_current_user_def jwt_decode_def)

theorem get_current_user_rejects_missing_or_inactive_witness:
  "get_current_user demo_settings (create_access_token demo_settings 1 None 0 ''j'') 5
     (demo_db\<lparr>users := [demo_user\<lparr>u_active := False\<rparr>]\<rparr>) = Inl credentials_exception
   \<and> get_current_user demo_settings (create_access_token demo_settings 1 None 0 ''j'') 5 demo_db
       = Inr demo_user"
  using get_current_user_rejects_missing_or_inactive
          [of "create_access_token demo_settings 1 None 0 ''j''" demo_settings
              "\<lparr>c_sub = Some 1, c_exp = Some 86400, c_iat = Some 0, c_jti = Some ''j''\<rparr>"
              86400 5 1 "demo_db\<lparr>users := [demo_user\<lparr>u_active := False\<rparr>]\<rparr>"]
  by (simp add: demo_defs create_access_token_def jwt_encode_def timedelta_minutes_def timegm_def
        db_get_user_def get_current_user_def jwt_decode_def Let_def)

text \<open>
  C5, as stated: every token whose \<open>exp\<close> is less than or equal to the current time is
  rejected. The library compares \<open>exp < now\<close> in whole seconds, so a correctly signed
  token whose \<open>exp\<close> is 100 is still accepted at second 100 (and up to the last
  microsecond of that second).
\<close>

theorem get_current_user_exp_equal_now_counterexample:
  "get_current_user demo_settings (JWS ''HS256'' ''test-secret'' demo_claims) 100000000 demo_db
     = Inr demo_user
   \<and> get_current_user demo_settings (JWS ''HS256'' ''test-secret'' demo_claims) 100999999 demo_db
     = Inr demo_user"
  by (simp add: demo_defs get_current_user_def jwt_decode_def timegm_def db_get_user_def)

text \<open>
  C5, amended: every token whose \<open>exp\<close> is strictly less than the current time in whole
  seconds is rejected with the credentials exception, whatever its algorithm and whatever
  key signed it.
\<close>

theorem get_current_user_rejects_expired:
  assumes "c_exp claims = Some e" and "e < timegm now"
  shows "get_current_user st (JWS alg k claims) now db = Inl credentials_exception"
  using assms by (simp add: get_current_user_def jwt_decode_def)

theorem get_current_user_rejects_expired_witness:
  "get_current_user demo_settings (JWS ''HS256'' ''test-secret'' demo_claims) 101000000 demo_db
     = Inl credentials_exception"
  using get_current_user_rejects_expired
          [of demo_claims 100 101000000 demo_settings "''HS256''" "''test-secret''" demo_db]
  by (simp add: timegm_def demo_claims_def)

text \<open>
  C6: for every secret \<open>T\<close>, known to the ledger or not, \<open>logout(T)\<close> returns the empty
  success; a \<open>refresh(T)\<close> on the state it leaves fails with 401 \<open>Invalid refresh token\<close>;
  a second \<open>logout(T)\<close> returns the same answer and leaves the same state; and the answer
  of \<open>logout\<close> is the same for any two secrets.
\<close>

theorem logout_then_refresh_fails:
  "fst (logout st sha256 T db) = Inr ()
   \<and> fst (refresh_token st sha256 T now raw jti (snd (logout st sha256 T db)))
       = Inl (HTTPException 401 ''Invalid refresh token'')
   \<and> logout st sha256 T (snd (logout st sha256 T db)) = logout st sha256 T db
   \<and> fst (logout st sha256 T' db) = fst (logout st sha256 T db)"
  by (simp add: logout_def refresh_token_def revoke_refresh_token_def Let_def find_revoked_none
        comp_def cong: if_cong)

theorem logout_then_refresh_fails_witness:
  "fst (refresh_token demo_settings demo_sha256 ''T'' 5 ''N'' ''j2''
          (snd (logout demo_settings demo_sha256 ''T'' demo_db_T)))
     = Inl (HTTPException 401 ''Invalid refresh token'')
   \<and> logout demo_settings demo_sha256 ''unknown'' demo_db_T = (Inr (), demo_db_T)"
  using logout_then_refresh_fails [of demo_settings demo_sha256 "''T''" demo_db_T 5 "''N''" "''j2''"]
  by (simp add: demo_defs logout_def revoke_refresh_token_def hash_refresh_token_def Let_def)

text \<open>
  C10: when the record of the presented secret is unrevoked and unexpired but its owner is
  absent or inactive, \<open>refresh_token\<close> fails with 401 \<open>User inactive\<close> and leaves the
  database as it was: the record is not revoked and no row is inserted. The same secret
  presented after the owner is active again, before the record expires and with a fresh
  new secret, succeeds. The stored hashes are pairwise distinct (the unique index).
\<close>

theorem refresh_inactive_owner_keeps_ledger:
  assumes uniq: "distinct (map rt_token_hash (refresh_tokens db))"
    and found: "find (\<lambda>r. rt_token_hash r = hash_refresh_token st sha256 T \<and> \<not> rt_revoked r
                          \<and> now < rt_expires_at r) (refresh_tokens db) = Some record"
    and gone: "db_get_user db (rt_user_id record) = None
               \<or> (\<exists>u. db_get_user db (rt_user_id record) = Some u \<and> \<not> u_active u)"
  shows "refresh_token st sha256 T now raw jti db = (Inl (HTTPException 401 ''User inactive''), db)
       \<and> (\<forall>users' user now' raw' jti'.
             find (\<lambda>u. u_id u = rt_user_id record) users' = Some user \<and> u_active user
             \<and> now' < rt_expires_at record
             \<and> hash_refresh_token st sha256 raw' \<notin> rt_token_hash ` set (refresh_tokens db)
             \<longrightarrow> (\<exists>tok db'. refresh_token st sha256 T now' raw' jti' (db\<lparr>users := users'\<rparr>)
                               = (Inr tok, db')
                     \<and> refresh_secret tok = Some raw'))"
proof (intro conjI allI impI)
  show "refresh_token st sha256 T now raw jti db = (Inl (HTTPException 401 ''User inactive''), db)"
    using found gone by (auto simp: refresh_token_def Let_def)
next
  fix users' :: "User list" and user :: User and now' :: int and raw' jti' :: string
  assume a: "find (\<lambda>u. u_id u = rt_user_id record) users' = Some user \<and> u_active user
             \<and> now' < rt_expires_at record
             \<and> hash_refresh_token st sha256 raw' \<notin> rt_token_hash ` set (refresh_tokens db)"
  let ?P = "\<lambda>now r. rt_token_hash r = hash_refresh_token st sha256 T \<and> \<not> rt_revoked r
                          \<and> now < rt_expires_at r"
  let ?db = "db\<lparr>users := users'\<rparr>"
  from found have rec_in: "record \<in> set (refresh_tokens db)" and rec_P: "?P now record"
    by (auto simp: find_Some_iff in_set_conv_nth)
  with a have "?P now' record" by simp
  with rec_in obtain r' where r': "find (?P now') (refresh_tokens db) = Some r'"
    by (cases "find (?P now') (refresh_tokens db)") (auto simp: find_None_iff)
  then have r'_in: "r' \<in> set (refresh_tokens db)"
    and r'_h: "rt_token_hash r' = hash_refresh_token st sha256 T"
    by (auto simp: find_Some_iff in_set_conv_nth)
  from rec_P have rec_h: "rt_token_hash record = hash_refresh_token st sha256 T" by simp
  from find_valid_unique[OF uniq rec_in rec_h r'_in r'_h] have "r' = record" .
  with r' have f: "find (?P now') (refresh_tokens ?db) = Some record" by simp
  have u: "db_get_user ?db (rt_user_id record) = Some user" using a by (simp add: db_get_user_def)
  have act: "u_active user" using a by simp
  have fr: "hash_refresh_token st sha256 raw' \<notin> rt_token_hash ` set (refresh_tokens ?db)"
    using a by simp
  from refresh_token_success[OF f u act fr]
  show "\<exists>tok db'. refresh_token st sha256 T now' raw' jti' ?db = (Inr tok, db')
                     \<and> refresh_secret tok = Some raw'"
    by simp
qed

theorem refresh_inactive_owner_keeps_ledger_witness:
  "refresh_token demo_settings demo_sha256 ''T'' 5 ''N'' ''j2'' demo_db_T_inactive
     = (Inl (HTTPException 401 ''User inactive''), demo_db_T_inactive)
   \<and> (\<exists>tok db'. refresh_token demo_settings demo_sha256 ''T'' 9 ''N'' ''j3''
                    (demo_db_T_inactive\<lparr>users := [demo_user]\<rparr>) = (Inr tok, db')
                  \<and> refresh_secret tok = Some ''N'')"
proof -
  have h: "distinct (map rt_token_hash (refresh_tokens demo_db_T_inactive))"
    "find (\<lambda>r. rt_token_hash r = hash_refresh_token demo_settings demo_sha256 ''T''
              \<and> \<not> rt_revoked r \<and> 5 < rt_expires_at r) (refresh_tokens demo_db_T_inactive)
       = Some demo_record"
    "db_get_user demo_db_T_inactive (rt_user_id demo_record) = None
       \<or> (\<exists>u. db_get_user demo_db_T_inactive (rt_user_id demo_record) = Some u \<and> \<not> u_active u)"
    by (simp_all add: demo_defs hash_refresh_token_def db_get_user_def)
  from refresh_inactive_owner_keeps_ledger[OF h, of "''N''" "''j2''"]
  have 1: "refresh_token demo_settings demo_sha256 ''T'' 5 ''N'' ''j2'' demo_db_T_inactive
     = (Inl (HTTPException 401 ''User inactive''), demo_db_T_inactive)"
    and 2: "\<And>users' user now' raw' jti'.
             find (\<lambda>u. u_id u = rt_user_id demo_record) users' = Some user \<and> u_active user
             \<and> now' < rt_expires_at demo_record
             \<and> hash_refresh_token demo_settings demo_sha256 raw'
                 \<notin> rt_token_hash ` set (refresh_tokens demo_db_T_inactive)
             \<Longrightarrow> (\<exists>tok db'. refresh_token demo_settings demo_sha256 ''T'' now' raw' jti'
                                (demo_db_T_inactive\<lparr>users := users'\<rparr>) = (Inr tok, db')
                     \<and> refresh_secret tok = Some raw')"
    by blast+
  have "\<exists>tok db'. refresh_token demo_settings demo_sha256 ''T'' 9 ''N'' ''j3''
                    (demo_db_T_inactive\<lparr>users := [demo_user]\<rparr>) = (Inr tok, db')
                  \<and> refresh_secret tok = Some ''N''"
    using 2[of "[demo_user]" demo_user 9 "''N''" "''j3''"]
    by (simp add: demo_defs hash_refresh_token_def)
  with 1 show ?thesis by simp
qed

section \<open>Claims about the authorization checks\<close>

text \<open>What the loop over the fields of an event update returns.\<close>

lemma update_event_fields_relocation:
  assumes "u_role user = manager" and "eu_department_id upd = Some v"
    and "Some v \<noteq> u_department_id user"
  shows "update_event_fields user ev (event_update_items upd)
           = Inl (HTTPException 403 ''Cannot move events outside your department'')"
  using assms
  by (cases "eu_title upd"; cases "eu_description upd"; cases "eu_scheduled_at upd")
     (simp_all add: event_update_items_def)

lemma update_event_fields_stay:
  assumes "u_role user \<noteq> manager \<or> eu_department_id upd = None
             \<or> eu_department_id upd = u_department_id user"
  shows "\<exists>ev'. update_event_fields user ev (event_update_items upd) = Inr ev'"
  using assms
  by (cases "eu_title upd"; cases "eu_description upd"; cases "eu_scheduled_at upd";
      cases "eu_department_id upd")
     (auto simp: event_update_items_def)

text \<open>
  C3, as stated: where the role predicate denies, a matching access grant turns the
  answer into Allow. \<open>demo_org\<close> holds two grants for the manager on tasks (one on
  \<open>all\<close>, one on task 7); the manager of department 1 still gets 403 on task 7 of
  department 2. No guard of the handlers reads the \<open>access_grants\<close> table.
\<close>

theorem access_grant_does_not_allow_counterexample:
  "access_grants demo_org = demo_grants
   \<and> task_guard demo_task demo_manager = Inl (HTTPException 403 ''Not allowed outside department'')
   \<and> get_task 7 demo_org demo_manager = Inl (HTTPException 403 ''Not allowed outside department'')"
  by (simp add: org_defs get_task_def db_get_task_def task_guard_def)

text \<open>
  C3, amended: a denial of the task guard stands whatever rows the \<open>access_grants\<close>
  table holds, and so does the answer of \<open>update_event\<close>: the grants are stored and
  listed, and no authorization check consults them.
\<close>

theorem guard_denial_ignores_access_grants:
  "(db_get_task db task_id = Some task \<and> task_guard task user = Inl e
      \<longrightarrow> get_task task_id (db\<lparr>access_grants := grants\<rparr>) user = Inl e)
   \<and> fst (update_event event_id event_update (db\<lparr>access_grants := grants\<rparr>) user)
       = fst (update_event event_id event_update db user)"
  by (auto simp: get_task_def db_get_task_def update_event_def db_get_event_def
           split: option.splits sum.splits)

theorem guard_denial_ignores_access_grants_witness:
  "get_task 7 (demo_org\<lparr>access_grants := demo_grants\<rparr>) demo_manager
     = Inl (HTTPException 403 ''Not allowed outside department'')"
  using guard_denial_ignores_access_grants
          [of demo_org 7 demo_task demo_manager "HTTPException 403 ''Not allowed outside department''"
              demo_grants]
  by (simp add: org_defs db_get_task_def task_guard_def)

text \<open>
  C7, as stated: a manager is allowed every mutation of a resource of the manager's own
  department. \<open>update_event\<close> refuses one: the manager of department 1 may not move the
  event of department 1 to department 2.
\<close>

theorem manager_relocation_counterexample:
  "u_role demo_manager = manager
   \<and> db_get_event demo_org 4 = Some demo_event
   \<and> e_department_id demo_event = u_department_id demo_manager
   \<and> update_event 4 demo_relocate demo_org demo_manager
       = (Inl (HTTPException 403 ''Cannot move events outside your department''), demo_org)"
  by (simp add: org_defs update_event_def db_get_event_def
        event_update_items_def)

text \<open>
  C7, amended, for the task guard and \<open>update_event\<close>: a manager passes the task guard
  when the task's department is the manager's and gets 403 otherwise; \<open>update_event\<close>
  answers 403 to a manager when the event belongs to another department or to none,
  succeeds on an event of the manager's department when the update leaves the
  department alone or names the manager's own, and answers 403 when the update moves the
  event to another department.
\<close>

theorem manager_department_scope:
  assumes "u_role user = manager"
  shows "(u_department_id user = Some (t_department_id task) \<longrightarrow> task_guard task user = Inr ())
   \<and> (u_department_id user \<noteq> Some (t_department_id task)
        \<longrightarrow> task_guard task user = Inl (HTTPException 403 ''Not allowed outside department''))
   \<and> (db_get_event db event_id = Some ev
        \<and> (e_department_id ev \<noteq> u_department_id user \<or> e_department_id ev = None)
        \<longrightarrow> update_event event_id upd db user
              = (Inl (HTTPException 403
                        ''Managers cannot modify shared or other department events''), db))
   \<and> (db_get_event db event_id = Some ev
        \<and> e_department_id ev = u_department_id user \<and> e_department_id ev \<noteq> None
        \<and> (eu_department_id upd = None \<or> eu_department_id upd = u_department_id user)
        \<longrightarrow> (\<exists>ev' db'. update_event event_id upd db user = (Inr ev', db')))
   \<and> (db_get_event db event_id = Some ev
        \<and> e_department_id ev = u_department_id user \<and> e_department_id ev \<noteq> None
        \<and> eu_department_id upd \<noteq> None \<and> eu_department_id upd \<noteq> u_department_id user
        \<longrightarrow> update_event event_id upd db user
              = (Inl (HTTPException 403 ''Cannot move events outside your department''), db))"
proof (intro conjI impI)
  show "task_guard task user = Inr ()" if "u_department_id user = Some (t_department_id task)"
    using that assms by (simp add: task_guard_def)
  show "task_guard task user = Inl (HTTPException 403 ''Not allowed outside department'')"
    if "u_department_id user \<noteq> Some (t_department_id task)"
    using that assms by (simp add: task_guard_def)
  show "update_event event_id upd db user
          = (Inl (HTTPException 403
                    ''Managers cannot modify shared or other department events''), db)"
    if "db_get_event db event_id = Some ev
        \<and> (e_department_id ev \<noteq> u_department_id user \<or> e_department_id ev = None)"
    using that assms by (auto simp: update_event_def)
  show "\<exists>ev' db'. update_event event_id upd db user = (Inr ev', db')"
    if h: "db_get_event db event_id = Some ev
        \<and> e_department_id ev = u_department_id user \<and> e_department_id ev \<noteq> None
        \<and> (eu_department_id upd = None \<or> eu_department_id upd = u_department_id user)"
  proof -
    from h obtain ev' where "update_event_fields user ev (event_update_items upd) = Inr ev'"
      using update_event_fields_stay[of user upd ev] by blast
    moreover from h obtain d where "e_department_id ev = Some d" "u_department_id user = Some d"
      by (cases "u_department_id user") auto
    ultimately show ?thesis using h assms by (simp add: update_event_def)
  qed
  show "update_event event_id upd db user
          = (Inl (HTTPException 403 ''Cannot move events outside your department''), db)"
    if h: "db_get_event db event_id = Some ev
        \<and> e_department_id ev = u_department_id user \<and> e_department_id ev \<noteq> None
        \<and> eu_department_id upd \<noteq> None \<and> eu_department_id upd \<noteq> u_department_id user"
  proof -
    from h obtain v where v: "eu_department_id upd = Some v" "Some v \<noteq> u_department_id user"
      by auto
    moreover from h obtain d where "e_department_id ev = Some d" "u_department_id user = Some d"
      by (cases "u_department_id user") auto
    ultimately show ?thesis
      using update_event_fields_relocation[OF assms, of upd v ev] h assms
      by (simp add: update_event_def)
  qed
qed

theorem manager_department_scope_witness:
  "task_guard demo_own_task demo_manager = Inr ()
   \<and> task_guard demo_task demo_manager = Inl (HTTPException 403 ''Not allowed outside department'')
   \<and> update_event 4 demo_retitle (demo_org\<lparr>events := [demo_event\<lparr>e_department_id := None\<rparr>]\<rparr>)
        demo_manager
       = (Inl (HTTPException 403 ''Managers cannot modify shared or other department events''),
          demo_org\<lparr>events := [demo_event\<lparr>e_department_id := None\<rparr>]\<rparr>)
   \<and> (\<exists>ev' db'. update_event 4 demo_retitle demo_org demo_manager = (Inr ev', db'))
   \<and> update_event 4 demo_relocate demo_org demo_manager
       = (Inl (HTTPException 403 ''Cannot move events outside your department''), demo_org)"
  using manager_department_scope [where user = demo_manager and task = demo_own_task]
    manager_department_scope [where user = demo_manager and task = demo_task
        and db = "demo_org\<lparr>events := [demo_event\<lparr>e_department_id := None\<rparr>]\<rparr>"
        and event_id = 4 and ev = "demo_event\<lparr>e_department_id := None\<rparr>"
        and upd = demo_retitle]
    manager_department_scope [where user = demo_manager and task = demo_task and db = demo_org
        and event_id = 4 and ev = demo_event and upd = demo_retitle]
    manager_department_scope [where user = demo_manager and task = demo_task and db = demo_org
        and event_id = 4 and ev = demo_event and upd = demo_relocate]
  by (simp add: org_defs db_get_event_def)




end
